theory Spec2Isabelle
  imports Complex_Main "HOL-Library.AList"
begin

section \<open>Python calls with effects\<close>

text \<open>
  A raised Python object is either an instance of the class \<open>Exception\<close>, which a
  handler \<^verbatim>\<open>except Exception:\<close> catches, or an instance of \<open>BaseException\<close>
  outside \<open>Exception\<close> (\<open>KeyboardInterrupt\<close>, \<open>SystemExit\<close>, \<open>GeneratorExit\<close>),
  which such a handler lets through. The string is the message.
\<close>

datatype raised = Exception string | BaseException string

text \<open>
  A call acts on a state \<open>'w\<close>: it returns the state it leaves behind and, when it
  raised, what it raised. Effects made before the raise stay.
\<close>

type_synonym 'w proc = "'w \<Rightarrow> raised option \<times> 'w"

definition skip :: "'w proc" where
  "skip w = (None, w)"

text \<open>Statement sequencing: the second statement runs unless the first raised.\<close>

definition then_do :: "'w proc \<Rightarrow> 'w proc \<Rightarrow> 'w proc" where
  "then_do p q w = (case p w of (None, w') \<Rightarrow> q w' | (Some e, w') \<Rightarrow> (Some e, w'))"

text \<open>\<^verbatim>\<open>try: p  except Exception: pass\<close>\<close>

definition try_except_pass :: "'w proc \<Rightarrow> 'w proc" where
  "try_except_pass p w =
     (case p w of (Some (Exception m), w') \<Rightarrow> (None, w') | r \<Rightarrow> r)"

section \<open>utils/print\_utils.py\<close>

text \<open>
  The module global \<open>_gui_callback\<close> holds an optional callable taking one string.
  The callable and the builtin \<open>print\<close> are outside the module: they act on the rest
  of the process, of type \<open>'w\<close>, and either may raise. The field \<open>calls\<close> records, in
  order, every call the module makes on its two sinks, with the arguments passed.
\<close>

datatype call = Print string string | Callback string

record 'w process =
  gui_callback :: "(string \<Rightarrow> 'w proc) option"
  calls :: "call list"
  world :: 'w

definition register_gui_logger :: "(string \<Rightarrow> 'w proc) option \<Rightarrow> 'w process \<Rightarrow> 'w process" where
  "register_gui_logger func s = s\<lparr>gui_callback := func\<rparr>"

text \<open>\<^verbatim>\<open>print(text, end=end, flush=True)\<close>, for a given behaviour \<open>console\<close> of the builtin.\<close>

definition call_print :: "(string \<Rightarrow> string \<Rightarrow> 'w proc) \<Rightarrow> string \<Rightarrow> string \<Rightarrow> 'w process proc" where
  "call_print console text end' s =
     (case console text end' (world s) of
        (r, w') \<Rightarrow> (r, s\<lparr>calls := calls s @ [Print text end'], world := w'\<rparr>))"

text \<open>\<^verbatim>\<open>_gui_callback(text)\<close>\<close>

definition call_gui :: "(string \<Rightarrow> 'w proc) \<Rightarrow> string \<Rightarrow> 'w process proc" where
  "call_gui cb text s =
     (case cb text (world s) of
        (r, w') \<Rightarrow> (r, s\<lparr>calls := calls s @ [Callback text], world := w'\<rparr>))"

text \<open>
  \<open>_emit(text, end)\<close>. A function object is truthy, so \<^verbatim>\<open>if _gui_callback:\<close> tests
  for \<open>None\<close>.
\<close>

definition emit :: "(string \<Rightarrow> string \<Rightarrow> 'w proc) \<Rightarrow> string \<Rightarrow> string \<Rightarrow> 'w process proc" where
  "emit console text end' =
     then_do (try_except_pass (call_print console text end'))
       (\<lambda>s. case gui_callback s of
               None \<Rightarrow> skip s
             | Some cb \<Rightarrow> try_except_pass (call_gui cb text) s)"

definition newline :: string where
  "newline = [CHR 0x0A]"

definition carriage_return :: string where
  "carriage_return = [CHR 0x0D]"

text \<open>\<open>str(i)\<close> for an integer: its decimal digits, with a minus sign when negative.\<close>

fun str_nat :: "nat \<Rightarrow> string" where
  "str_nat n =
     (if n < 10 then [char_of (48 + n)]
      else str_nat (n div 10) @ [char_of (48 + n mod 10)])"

definition str_int :: "int \<Rightarrow> string" where
  "str_int i = (if i < 0 then ''-'' @ str_nat (nat (- i)) else str_nat (nat i))"

text \<open>The non-ASCII literals of the module, as their UTF-8 bytes.\<close>

definition info_prefix :: string where
  "info_prefix = [CHR 0xE2, CHR 0x84, CHR 0xB9, CHR 0xEF, CHR 0xB8, CHR 0x8F] @ ''  ''"

definition success_prefix :: string where
  "success_prefix = [CHR 0xE2, CHR 0x9C, CHR 0x85] @ '' ''"

definition warning_prefix :: string where
  "warning_prefix = [CHR 0xE2, CHR 0x9A, CHR 0xA0, CHR 0xEF, CHR 0xB8, CHR 0x8F] @ ''  ''"

definition error_prefix :: string where
  "error_prefix = [CHR 0xE2, CHR 0x9D, CHR 0x8C] @ '' ''"

definition step_prefix :: string where
  "step_prefix = [CHR 0xE2, CHR 0x86, CHR 0x92] @ '' ''"

definition progress_prefix :: string where
  "progress_prefix = [CHR 0xE8, CHR 0xBF, CHR 0x9B, CHR 0xE5, CHR 0xBA, CHR 0xA6] @ '': ''"

definition countdown_go :: string where
  "countdown_go =
     ''  '' @ [CHR 0xE5, CHR 0xBC, CHR 0x80, CHR 0xE5, CHR 0xA7, CHR 0x8B, CHR 0xEF, CHR 0xBC, CHR 0x81] @ ''  ''"

definition print_title :: "(string \<Rightarrow> string \<Rightarrow> 'w proc) \<Rightarrow> string \<Rightarrow> 'w process proc" where
  "print_title console text =
     then_do (emit console (newline @ replicate 60 CHR ''='') newline)
       (then_do (emit console text newline)
          (emit console (replicate 60 CHR ''='') newline))"

definition print_info :: "(string \<Rightarrow> string \<Rightarrow> 'w proc) \<Rightarrow> string \<Rightarrow> 'w process proc" where
  "print_info console text = emit console (info_prefix @ text) newline"

definition print_success :: "(string \<Rightarrow> string \<Rightarrow> 'w proc) \<Rightarrow> string \<Rightarrow> 'w process proc" where
  "print_success console text = emit console (success_prefix @ text) newline"

definition print_warning :: "(string \<Rightarrow> string \<Rightarrow> 'w proc) \<Rightarrow> string \<Rightarrow> 'w process proc" where
  "print_warning console text = emit console (warning_prefix @ text) newline"

definition print_error :: "(string \<Rightarrow> string \<Rightarrow> 'w proc) \<Rightarrow> string \<Rightarrow> 'w process proc" where
  "print_error console text = emit console (error_prefix @ text) newline"

definition print_step :: "(string \<Rightarrow> string \<Rightarrow> 'w proc) \<Rightarrow> string \<Rightarrow> 'w process proc" where
  "print_step console text = emit console (step_prefix @ text) newline"

definition print_progress ::
  "(string \<Rightarrow> string \<Rightarrow> 'w proc) \<Rightarrow> int \<Rightarrow> int \<Rightarrow> string \<Rightarrow> 'w process proc" where
  "print_progress console current total' text =
     (if text \<noteq> []
      then emit console
             (progress_prefix @ str_int current @ ''/'' @ str_int total' @ '' '' @ text) newline
      else emit console (progress_prefix @ str_int current @ ''/'' @ str_int total') newline)"

definition print_section :: "(string \<Rightarrow> string \<Rightarrow> 'w proc) \<Rightarrow> string \<Rightarrow> 'w process proc" where
  "print_section console text =
     then_do (emit console (replicate 60 CHR ''-'') newline) (emit console text newline)"

text \<open>\<open>time.sleep(1)\<close> acts on the rest of the process and is no call on a sink.\<close>

definition call_sleep :: "(nat \<Rightarrow> 'w proc) \<Rightarrow> nat \<Rightarrow> 'w process proc" where
  "call_sleep sleep n s = (case sleep n (world s) of (r, w') \<Rightarrow> (r, s\<lparr>world := w'\<rparr>))"

text \<open>
  The loop \<^verbatim>\<open>for i in range(seconds, 0, -1)\<close> of \<open>print_countdown\<close>, with \<open>i\<close>
  running from the argument down to 1.
\<close>

fun countdown_loop ::
  "(string \<Rightarrow> string \<Rightarrow> 'w proc) \<Rightarrow> (nat \<Rightarrow> 'w proc) \<Rightarrow> nat \<Rightarrow> 'w process proc" where
  "countdown_loop console sleep 0 = skip"
| "countdown_loop console sleep (Suc n) =
     then_do (emit console (''  '' @ str_int (int (Suc n)) @ ''...'') carriage_return)
       (then_do (call_sleep sleep 1) (countdown_loop console sleep n))"

definition print_countdown ::
  "(string \<Rightarrow> string \<Rightarrow> 'w proc) \<Rightarrow> (nat \<Rightarrow> 'w proc) \<Rightarrow> int \<Rightarrow> 'w process proc" where
  "print_countdown console sleep seconds =
     then_do (countdown_loop console sleep (nat seconds)) (emit console countdown_go newline)"

subsection \<open>What the sinks receive\<close>

text \<open>
  A sequence of sink calls forwards every message: with a callback registered, each
  console print of a message is directly followed by one call of the callback on the
  identical string; with none registered, there are console prints only.
\<close>

fun forwarded :: "bool \<Rightarrow> call list \<Rightarrow> bool" where
  "forwarded reg [] = True"
| "forwarded reg (Print m e # Callback m' # cs) = (reg \<and> m' = m \<and> forwarded reg cs)"
| "forwarded reg (Print m e # cs) = (\<not> reg \<and> forwarded reg cs)"
| "forwarded reg (Callback m # cs) = False"

text \<open>The print functions of the module and \<open>_emit\<close> itself, at any arguments.\<close>

inductive print_function ::
  "(string \<Rightarrow> string \<Rightarrow> 'w proc) \<Rightarrow> (nat \<Rightarrow> 'w proc) \<Rightarrow> 'w process proc \<Rightarrow> bool"
  for console :: "string \<Rightarrow> string \<Rightarrow> 'w proc" and sleep :: "nat \<Rightarrow> 'w proc" where
  "print_function console sleep (emit console text end')"
| "print_function console sleep (print_title console text)"
| "print_function console sleep (print_info console text)"
| "print_function console sleep (print_success console text)"
| "print_function console sleep (print_warning console text)"
| "print_function console sleep (print_error console text)"
| "print_function console sleep (print_step console text)"
| "print_function console sleep (print_progress console current total' text)"
| "print_function console sleep (print_section console text)"
| "print_function console sleep (print_countdown console sleep seconds)"

text \<open>
  A call that, when it returns normally, leaves the registered callback in place
  and has added a forwarding sequence of sink calls; and one that has added at least
  one sink call.
\<close>

definition delivers :: "'w process proc \<Rightarrow> bool" where
  "delivers p =
     (\<forall>s s'. p s = (None, s') \<longrightarrow>
        gui_callback s' = gui_callback s \<and>
        (\<exists>tr. calls s' = calls s @ tr \<and> forwarded (gui_callback s \<noteq> None) tr))"

definition grows :: "'w process proc \<Rightarrow> bool" where
  "grows p = (\<forall>s s'. p s = (None, s') \<longrightarrow> length (calls s) < length (calls s'))"

text \<open>
  The sink calls that deliver a list of messages, each with the \<open>end\<close> it is printed
  with: the console print of the message, then, with a callback registered, the
  callback on the same string.
\<close>

fun deliveries :: "bool \<Rightarrow> (string \<times> string) list \<Rightarrow> call list" where
  "deliveries reg [] = []"
| "deliveries reg ((m, e) # ms) =
     (if reg then [Print m e, Callback m] else [Print m e]) @ deliveries reg ms"

text \<open>
  A call that, when it returns normally, leaves the registered callback in place
  and has added exactly the sink calls that deliver the given messages.
\<close>

definition emits :: "(string \<times> string) list \<Rightarrow> 'w process proc \<Rightarrow> bool" where
  "emits ms p =
     (\<forall>s s'. p s = (None, s') \<longrightarrow>
        gui_callback s' = gui_callback s \<and>
        calls s' = calls s @ deliveries (gui_callback s \<noteq> None) ms)"

section \<open>config/config.py\<close>

text \<open>
  Configuration values are Python objects: the scalars \<open>bool\<close>, \<open>int\<close>, \<open>float\<close>
  (a decimal literal, as the rational it denotes) and \<open>str\<close>; any other object by
  its \<open>repr\<close>. A dictionary is an association list in insertion order, with
  distinct keys.
\<close>

datatype pyval = PBool bool | PInt int | PFloat rat | PStr string | PObject string

fun is_scalar :: "pyval \<Rightarrow> bool" where
  "is_scalar (PObject r) = False"
| "is_scalar v = True"

type_synonym params = "(string \<times> pyval) list"

type_synonym config = "(string \<times> params) list"

definition CONFIG :: config where
  "CONFIG =
     [(''draw_config'',
         [(''DELAY'', PInt 5),
          (''ENABLE_JITTER'', PBool True),
          (''JITTER_AMOUNT'', PFloat (15 / 10)),
          (''JITTER_FREQUENCY'', PInt 2),
          (''SPEED_FACTOR'', PFloat (1 / 10))]),
      (''image_config'',
         [(''BRUSH_STEP'', PInt 3),
          (''CANNY_THRESH1'', PInt 50),
          (''CANNY_THRESH2'', PInt 150),
          (''EPSILON_FACTOR'', PFloat (1 / 10000)),
          (''H_IMG'', PInt 1280),
          (''THRESHOLD_VALUE'', PInt 131),
          (''W_IMG'', PInt 960)]),
      (''screen_config'',
         [(''H'', PInt 910), (''W'', PInt 655), (''X_A'', PInt 1890), (''Y_A'', PInt 365)])]"

definition sections :: "config \<Rightarrow> string set" where
  "sections c = fst ` set c"

definition option_keys :: "config \<Rightarrow> string \<Rightarrow> string set" where
  "option_keys c s = (case map_of c s of None \<Rightarrow> {} | Some ps \<Rightarrow> fst ` set ps)"

text \<open>\<open>c[s][k]\<close>, where both keys exist.\<close>

definition lookup :: "config \<Rightarrow> string \<Rightarrow> string \<Rightarrow> pyval option" where
  "lookup c s k = (case map_of c s of None \<Rightarrow> None | Some ps \<Rightarrow> map_of ps k)"

text \<open>No key occurs twice, in the dictionary of sections or in a section.\<close>

definition wf_config :: "config \<Rightarrow> bool" where
  "wf_config c = (distinct (map fst c) \<and> list_all (\<lambda>(s, ps). distinct (map fst ps)) c)"

definition all_scalar :: "config \<Rightarrow> bool" where
  "all_scalar c = list_all (\<lambda>(s, ps). list_all (\<lambda>(k, v). is_scalar v) ps) c"

subsection \<open>The configuration collaborator\<close>

text \<open>
  The options that a reset keeps: \<open>H_IMG\<close>, \<open>W_IMG\<close> and \<open>THRESHOLD_VALUE\<close> of
  \<open>image_config\<close>, and all of \<open>screen_config\<close> (the confirmation dialog of
  \<open>reset_config_action\<close> names them).
\<close>

definition preserved_key :: "string \<Rightarrow> string \<Rightarrow> bool" where
  "preserved_key s k =
     (s = ''screen_config'' \<or>
      (s = ''image_config'' \<and> (k = ''H_IMG'' \<or> k = ''W_IMG'' \<or> k = ''THRESHOLD_VALUE'')))"

text \<open>
  Modelled from the spec: \<open>reset_config_file\<close> of \<open>utils/config_utils.py\<close>, which is
  not among the sources. The spec: it "resets all but image-dimension/threshold and
  screen-rectangle keys to defaults". The default values are a parameter; the
  recognised options are those the defaults give; a kept option the file lacks takes
  its default. The result is the new content of the configuration file.
\<close>

definition reset_config_file :: "config \<Rightarrow> config \<Rightarrow> config" where
  "reset_config_file defaults file =
     map (\<lambda>(s, ps).
            (s, map (\<lambda>(k, d).
                       (k, if preserved_key s k
                           then (case lookup file s k of Some v \<Rightarrow> v | None \<Rightarrow> d)
                           else d)) ps))
         defaults"

text \<open>
  Modelled from the spec: \<open>load_config\<close> of \<open>utils/config_utils.py\<close>, which is not
  among the sources. The spec: \<open>load_config() -> Configuration\<close>, the persisted
  configuration; the argument is the content of the configuration file.
\<close>

definition load_config :: "config \<Rightarrow> config" where
  "load_config file = file"


section \<open>gui.py\<close>

text \<open>
  The state the handlers of \<open>HeyTeaGUI\<close> act on: the attributes of the object
  (\<open>config_data\<close>, \<open>image_path\<close>, the variable of the algorithm menu, the state of the
  start button, the content of the log widget), and around them the callbacks queued
  with \<open>after\<close>, the message boxes shown, the live threads whose target is \<open>run_draw\<close>,
  and the content of the configuration file. Calls on Tk widgets are taken to
  succeed; rendering has no state of its own here.
\<close>

datatype widget_state = NORMAL | DISABLED

datatype dialog = ShowWarning string string | ShowError string string

datatype drawer = AutoDrawerCanny | AutoDrawerScan

text \<open>
  Where a thread on \<open>run_draw\<close> stands: started with the algorithm name it
  captured, inside the \<open>run\<close> of the drawer it built, past it with the outcome, or
  before the \<open>finally\<close> block.
\<close>

datatype phase = Started string | Running drawer | Returned "raised option" | Finishing

record app =
  config_data :: config
  image_path :: "string option"
  algorithm_var :: string
  start_btn :: widget_state
  log_text :: string
  after_queue :: "string list"
  dialogs :: "dialog list"
  workers :: "phase list"
  config_file :: config

text \<open>A statement that cannot raise.\<close>

definition act :: "('w \<Rightarrow> 'w) \<Rightarrow> 'w proc" where
  "act f w = (None, f w)"

text \<open>\<^verbatim>\<open>try: p  except Exception as e: h(str(e))\<close>\<close>

definition try_except :: "'w proc \<Rightarrow> (string \<Rightarrow> 'w proc) \<Rightarrow> 'w proc" where
  "try_except p h w = (case p w of (Some (Exception m), w') \<Rightarrow> h m w' | r \<Rightarrow> r)"

text \<open>The non-ASCII literals of the class, as their UTF-8 bytes.\<close>

definition edge_algorithm :: string where
  "edge_algorithm = [CHR 0xE8, CHR 0xBE, CHR 0xB9, CHR 0xE7, CHR 0xBC, CHR 0x98]"

definition scan_algorithm :: string where
  "scan_algorithm =
     [CHR 0xE6, CHR 0x89, CHR 0xAB, CHR 0xE6, CHR 0x8F, CHR 0x8F, CHR 0xE7, CHR 0xBA, CHR 0xBF]"

definition no_image_title :: string where
  "no_image_title =
     [CHR 0xE6, CHR 0x9C, CHR 0xAA, CHR 0xE9, CHR 0x80, CHR 0x89, CHR 0xE6, CHR 0x8B, CHR 0xA9,
      CHR 0xE5, CHR 0x9B, CHR 0xBE, CHR 0xE7, CHR 0x89, CHR 0x87]"

definition no_image_message :: string where
  "no_image_message =
     [CHR 0xE8, CHR 0xAF, CHR 0xB7, CHR 0xE5, CHR 0x85, CHR 0x88, CHR 0xE9, CHR 0x80, CHR 0x9A,
      CHR 0xE8, CHR 0xBF, CHR 0x87] @ '' '' @
     [CHR 0xE6, CHR 0x96, CHR 0x87, CHR 0xE4, CHR 0xBB, CHR 0xB6] @ '' -> '' @
     [CHR 0xE6, CHR 0x89, CHR 0x93, CHR 0xE5, CHR 0xBC, CHR 0x80, CHR 0xE6, CHR 0x96, CHR 0x87,
      CHR 0xE4, CHR 0xBB, CHR 0xB6] @ '' '' @
     [CHR 0xE9, CHR 0x80, CHR 0x89, CHR 0xE6, CHR 0x8B, CHR 0xA9, CHR 0xE5, CHR 0x9B, CHR 0xBE,
      CHR 0xE7, CHR 0x89, CHR 0x87, CHR 0xE3, CHR 0x80, CHR 0x82]"

definition start_message :: string where
  "start_message =
     [CHR 0xE5, CHR 0xBC, CHR 0x80, CHR 0xE5, CHR 0xA7, CHR 0x8B, CHR 0xE7, CHR 0xBB, CHR 0x98,
      CHR 0xE7, CHR 0x94, CHR 0xBB] @ '' - '' @
     [CHR 0xE7, CHR 0xAE, CHR 0x97, CHR 0xE6, CHR 0xB3, CHR 0x95] @ '': ''"

definition done_message :: string where
  "done_message =
     [CHR 0xE7, CHR 0xBB, CHR 0x98, CHR 0xE7, CHR 0x94, CHR 0xBB, CHR 0xE5, CHR 0xAE, CHR 0x8C,
      CHR 0xE6, CHR 0x88, CHR 0x90]"

definition failed_message :: string where
  "failed_message =
     [CHR 0xE7, CHR 0xBB, CHR 0x98, CHR 0xE7, CHR 0x94, CHR 0xBB, CHR 0xE5, CHR 0x87, CHR 0xBA,
      CHR 0xE9, CHR 0x94, CHR 0x99] @ '': ''"

definition opened_message :: string where
  "opened_message =
     [CHR 0xE5, CHR 0xB7, CHR 0xB2, CHR 0xE6, CHR 0x89, CHR 0x93, CHR 0xE5, CHR 0xBC, CHR 0x80,
      CHR 0xE5, CHR 0x9B, CHR 0xBE, CHR 0xE7, CHR 0x89, CHR 0x87] @ '': ''"

definition open_failed_title :: string where
  "open_failed_title =
     [CHR 0xE6, CHR 0x89, CHR 0x93, CHR 0xE5, CHR 0xBC, CHR 0x80, CHR 0xE5, CHR 0xA4, CHR 0xB1,
      CHR 0xE8, CHR 0xB4, CHR 0xA5]"

definition open_failed_message :: string where
  "open_failed_message =
     [CHR 0xE6, CHR 0x97, CHR 0xA0, CHR 0xE6, CHR 0xB3, CHR 0x95, CHR 0xE6, CHR 0x89, CHR 0x93,
      CHR 0xE5, CHR 0xBC, CHR 0x80, CHR 0xE5, CHR 0x9B, CHR 0xBE, CHR 0xE7, CHR 0x89, CHR 0x87] @
     '': ''"

definition saved_message :: string where
  "saved_message =
     [CHR 0xE9, CHR 0x85, CHR 0x8D, CHR 0xE7, CHR 0xBD, CHR 0xAE, CHR 0xE5, CHR 0xB7, CHR 0xB2,
      CHR 0xE4, CHR 0xBF, CHR 0x9D, CHR 0xE5, CHR 0xAD, CHR 0x98]"

definition reset_done_message :: string where
  "reset_done_message =
     [CHR 0xE9, CHR 0x85, CHR 0x8D, CHR 0xE7, CHR 0xBD, CHR 0xAE, CHR 0xE5, CHR 0xB7, CHR 0xB2,
      CHR 0xE9, CHR 0x87, CHR 0x8D, CHR 0xE7, CHR 0xBD, CHR 0xAE, CHR 0xE4, CHR 0xB8, CHR 0xBA,
      CHR 0xE9, CHR 0xBB, CHR 0x98, CHR 0xE8, CHR 0xAE, CHR 0xA4, CHR 0xEF, CHR 0xBC, CHR 0x88,
      CHR 0xE4, CHR 0xBF, CHR 0x9D, CHR 0xE7, CHR 0x95, CHR 0x99, CHR 0xE6, CHR 0x8C, CHR 0x87,
      CHR 0xE5, CHR 0xAE, CHR 0x9A, CHR 0xE9, CHR 0xA1, CHR 0xB9, CHR 0xEF, CHR 0xBC, CHR 0x89,
      CHR 0xE5, CHR 0xB9, CHR 0xB6, CHR 0xE5, CHR 0xB7, CHR 0xB2, CHR 0xE5, CHR 0x88, CHR 0xB7,
      CHR 0xE6, CHR 0x96, CHR 0xB0]"

definition reset_failed_message :: string where
  "reset_failed_message =
     [CHR 0xE9, CHR 0x87, CHR 0x8D, CHR 0xE7, CHR 0xBD, CHR 0xAE, CHR 0xE9, CHR 0x85, CHR 0x8D,
      CHR 0xE7, CHR 0xBD, CHR 0xAE, CHR 0xE5, CHR 0xA4, CHR 0xB1, CHR 0xE8, CHR 0xB4, CHR 0xA5] @
     '': ''"

subsection \<open>The log\<close>

text \<open>\<open>append_log(text)\<close> inserts the text and a newline at the end of the log widget.\<close>

definition append_log :: "string \<Rightarrow> app \<Rightarrow> app" where
  "append_log text a = a\<lparr>log_text := log_text a @ text @ newline\<rparr>"

text \<open>
  \<^verbatim>\<open>self.log_text.after(0, lambda m=msg: self.append_log(m))\<close>, when Tk accepts it:
  the append is queued for the main thread.
\<close>

definition tk_after :: "string \<Rightarrow> app proc" where
  "tk_after msg = act (\<lambda>a. a\<lparr>after_queue := after_queue a @ [msg]\<rparr>)"

text \<open>
  \<open>_gui_log_proxy(msg)\<close>, the callback \<open>_build_ui\<close> registers with
  \<open>register_gui_logger\<close>, for a given behaviour \<open>after\<close> of the scheduling call: when
  it raises, the message is appended directly, and a failure of that is dropped.
\<close>

definition gui_log_proxy :: "(string \<Rightarrow> app proc) \<Rightarrow> string \<Rightarrow> app proc" where
  "gui_log_proxy after msg =
     try_except (after msg) (\<lambda>e. try_except_pass (act (append_log msg)))"

subsection \<open>Opening an image\<close>

text \<open>A call on something outside the state, with its outcome.\<close>

definition outcome :: "raised option \<Rightarrow> 'w proc" where
  "outcome r w = (r, w)"

text \<open>
  \<open>open_file\<close>, for the path the file dialog returns (empty when cancelled), the
  outcome of \<open>Image.open\<close> on it and the outcome of drawing the image on the canvas.
  The \<open>try\<close> block holds all of it: an \<open>Exception\<close> of the drawing brings the error
  box when the path is already set and the log line written.
\<close>

definition open_file ::
  "string \<Rightarrow> (string \<Rightarrow> raised option) \<Rightarrow> (string \<Rightarrow> raised option) \<Rightarrow> app proc" where
  "open_file file_path image_open draw_image =
     (if file_path = [] then skip
      else try_except
             (then_do (outcome (image_open file_path))
                (then_do
                   (act (\<lambda>a. append_log (opened_message @ file_path)
                                (a\<lparr>image_path := Some file_path\<rparr>)))
                   (outcome (draw_image file_path))))
             (\<lambda>e. act (\<lambda>a. a\<lparr>dialogs := dialogs a @
                               [ShowError open_failed_title (open_failed_message @ e)]\<rparr>)))"

subsection \<open>Drawing\<close>

text \<open>\<^verbatim>\<open>not self.image_path\<close>: the path is \<open>None\<close> or the empty string.\<close>

definition no_image :: "app \<Rightarrow> bool" where
  "no_image a = (image_path a = None \<or> image_path a = Some [])"

text \<open>
  \<open>start_drawing\<close>: without an image, a warning box and nothing else; otherwise a
  log line, the start button disabled, and a thread started on \<open>run_draw\<close> with the
  algorithm name read from the menu.
\<close>

definition start_drawing :: "app \<Rightarrow> app" where
  "start_drawing a =
     (if no_image a
      then a\<lparr>dialogs := dialogs a @ [ShowWarning no_image_title no_image_message]\<rparr>
      else (let algo = algorithm_var a;
                a1 = append_log (start_message @ algo) a;
                a2 = a1\<lparr>start_btn := DISABLED\<rparr>
            in a2\<lparr>workers := workers a2 @ [Started algo]\<rparr>))"

text \<open>The drawer \<open>run_draw\<close> builds and runs for the algorithm name it captured.\<close>

definition drawer_of :: "string \<Rightarrow> drawer" where
  "drawer_of algo = (if algo = edge_algorithm then AutoDrawerCanny else AutoDrawerScan)"

text \<open>
  \<open>run_draw\<close> after the drawer's \<open>run\<close> ended with outcome \<open>r\<close>: the last statement
  of the \<open>try\<close> block or the handler of \<open>Exception\<close>; then the \<open>finally\<close> block.
\<close>

definition run_draw_log :: "raised option \<Rightarrow> app \<Rightarrow> app" where
  "run_draw_log r a =
     (case r of
        None \<Rightarrow> append_log done_message a
      | Some (Exception m) \<Rightarrow> append_log (failed_message @ m) a
      | Some (BaseException m) \<Rightarrow> a)"

definition run_draw_finally :: "app \<Rightarrow> app" where
  "run_draw_finally a = a\<lparr>start_btn := NORMAL\<rparr>"

text \<open>
  The application as a transition system. The main thread runs one handler at a
  time; Tk calls the command of the start button only while the button is not
  disabled. A thread on \<open>run_draw\<close> takes its steps at any moment: it builds the
  drawer for its algorithm, the drawer's \<open>run\<close> ends with some outcome (the drawers
  are not among the sources), the outcome is logged, the \<open>finally\<close> block runs and
  the thread ends. Every other handler of the
  class leaves the start button and these threads alone.
\<close>

inductive step :: "app \<Rightarrow> app \<Rightarrow> bool" where
  click_start: "start_btn a = NORMAL \<Longrightarrow> step a (start_drawing a)"
| worker_build: "workers a = ws @ Started algo # ws' \<Longrightarrow>
     step a (a\<lparr>workers := ws @ Running (drawer_of algo) # ws'\<rparr>)"
| worker_run: "workers a = ws @ Running d # ws' \<Longrightarrow>
     step a (a\<lparr>workers := ws @ Returned r # ws'\<rparr>)"
| worker_log: "workers a = ws @ Returned r # ws' \<Longrightarrow>
     step a ((run_draw_log r a)\<lparr>workers := ws @ Finishing # ws'\<rparr>)"
| worker_finally: "workers a = ws @ Finishing # ws' \<Longrightarrow>
     step a ((run_draw_finally a)\<lparr>workers := ws @ ws'\<rparr>)"
| other_handler: "start_btn a' = start_btn a \<Longrightarrow> workers a' = workers a \<Longrightarrow> step a a'"

text \<open>The application after \<open>__init__\<close>: no image, the button enabled, no thread.\<close>

definition initial :: "app \<Rightarrow> bool" where
  "initial a = (image_path a = None \<and> start_btn a = NORMAL \<and> workers a = [])"

subsection \<open>Editing and resetting the configuration\<close>

text \<open>
  The body of the loop of \<open>save_and_close\<close> for one entry of \<open>entries\<close>, with the text
  \<open>raw\<close> its widget holds. The builtin \<open>eval\<close> is a parameter: the value of the
  expression, or what evaluating it raises; it is taken to depend on the text alone
  and to have no effect on the application. A missing section makes the subscript
  raise \<open>KeyError\<close>.
\<close>

definition store_entry ::
  "(string \<Rightarrow> raised + pyval) \<Rightarrow> string \<Rightarrow> string \<Rightarrow> string \<Rightarrow> app proc" where
  "store_entry eval section' key raw a =
     (case eval raw of
        Inl (BaseException m) \<Rightarrow> (Some (BaseException m), a)
      | r \<Rightarrow>
          (let val = (case r of Inr v \<Rightarrow> v | Inl e \<Rightarrow> PStr raw)
           in case map_of (config_data a) section' of
                None \<Rightarrow> (Some (Exception (''KeyError: '' @ section')), a)
              | Some ps \<Rightarrow>
                  (None, a\<lparr>config_data :=
                              AList.update section' (AList.update key val ps) (config_data a)\<rparr>)))"

fun store_entries ::
  "(string \<Rightarrow> raised + pyval) \<Rightarrow> ((string \<times> string) \<times> string) list \<Rightarrow> app proc" where
  "store_entries eval [] = skip"
| "store_entries eval (((section', key), raw) # es) =
     then_do (store_entry eval section' key raw) (store_entries eval es)"

text \<open>
  The collaborators of \<open>utils/config_utils.py\<close> as the handlers call them, each for a
  given behaviour of the function on the configuration file.
\<close>

definition call_save :: "(config \<Rightarrow> config \<Rightarrow> raised + config) \<Rightarrow> app proc" where
  "call_save save a =
     (case save (config_data a) (config_file a) of
        Inl e \<Rightarrow> (Some e, a)
      | Inr f \<Rightarrow> (None, a\<lparr>config_file := f\<rparr>))"

definition call_reset :: "(config \<Rightarrow> raised + config) \<Rightarrow> app proc" where
  "call_reset reset a =
     (case reset (config_file a) of
        Inl e \<Rightarrow> (Some e, a)
      | Inr f \<Rightarrow> (None, a\<lparr>config_file := f\<rparr>))"

definition call_load :: "(config \<Rightarrow> raised + config) \<Rightarrow> app proc" where
  "call_load load a =
     (case load (config_file a) of
        Inl e \<Rightarrow> (Some e, a)
      | Inr c \<Rightarrow> (None, a\<lparr>config_data := c\<rparr>))"

text \<open>\<open>save_and_close\<close>, for the texts the widgets of the editor hold.\<close>

definition save_and_close ::
  "(string \<Rightarrow> raised + pyval) \<Rightarrow> (config \<Rightarrow> config \<Rightarrow> raised + config) \<Rightarrow>
   ((string \<times> string) \<times> string) list \<Rightarrow> app proc" where
  "save_and_close eval save entries =
     then_do (store_entries eval entries)
       (then_do (call_save save) (act (append_log saved_message)))"

text \<open>\<open>do_reset\<close>, the target of the thread \<open>reset_config_action\<close> starts.\<close>

definition do_reset ::
  "(config \<Rightarrow> raised + config) \<Rightarrow> (config \<Rightarrow> raised + config) \<Rightarrow> app proc" where
  "do_reset reset load =
     try_except
       (then_do (call_reset reset)
          (then_do (call_load load) (act (append_log reset_done_message))))
       (\<lambda>e. act (append_log (reset_failed_message @ e)))"

text \<open>
  \<open>reset_config_action\<close>, for the answer to its confirmation box: the state once the
  thread it starts has run \<open>do_reset\<close>.
\<close>

definition reset_config_action ::
  "bool \<Rightarrow> (config \<Rightarrow> raised + config) \<Rightarrow> (config \<Rightarrow> raised + config) \<Rightarrow> app proc" where
  "reset_config_action answer reset load =
     (if \<not> answer then skip else do_reset reset load)"

subsection \<open>The application at start-up\<close>

text \<open>
  The state \<open>__init__\<close> leaves when the configuration file is \<open>config/config.py\<close> as
  it stands: \<open>config_data\<close> is what \<open>load_config\<close> returns, no image is chosen, the
  menu shows its first algorithm and the button is enabled.
\<close>

definition startup :: app where
  "startup =
     \<lparr>config_data = load_config CONFIG, image_path = None, algorithm_var = edge_algorithm,
      start_btn = NORMAL, log_text = [], after_queue = [], dialogs = [], workers = [],
      config_file = CONFIG\<rparr>"

text \<open>A call that leaves the start button and the threads on \<open>run_draw\<close> as they are.\<close>

definition keeps :: "app proc \<Rightarrow> bool" where
  "keeps p = (\<forall>a. start_btn (snd (p a)) = start_btn a \<and> workers (snd (p a)) = workers a)"

section \<open>The coordinate mapper\<close>

text \<open>
  The calibrated screen rectangle (origin \<open>X_A\<close>, \<open>Y_A\<close>, width \<open>W\<close>, height \<open>H\<close>) and
  the working resolution (\<open>W_IMG\<close>, \<open>H_IMG\<close>), as exact numbers.
\<close>

record calibration =
  X_A :: rat
  Y_A :: rat
  W :: rat
  H :: rat
  W_IMG :: rat
  H_IMG :: rat

datatype error = CalibrationError

text \<open>
  Modelled from the spec: the Coordinate Mapper of the drawing core, which is not
  among the sources. The spec: it maps an image-space point \<open>(x, y)\<close> to screen space
  by \<open>screen_x = X_A + x * (W / W_IMG)\<close>, \<open>screen_y = Y_A + y * (H / H_IMG)\<close>, and
  "fails with CalibrationError if the Screen Rectangle has zero width or height".
\<close>

definition map_point :: "calibration \<Rightarrow> rat \<times> rat \<Rightarrow> error + rat \<times> rat" where
  "map_point c p =
     (if W c = 0 \<or> H c = 0 then Inl CalibrationError
      else Inr (X_A c + fst p * (W c / W_IMG c), Y_A c + snd p * (H c / H_IMG c)))"

section \<open>Properties of the logging module\<close>

lemma try_except_pass_None:
  "\<forall>m. fst (p w) \<noteq> Some (BaseException m) \<Longrightarrow> fst (try_except_pass p w) = None"
  by (cases "p w"; cases "fst (p w)")
     (auto simp: try_except_pass_def split: raised.splits option.splits)

lemma try_except_pass_not_Exception:
  "fst (try_except_pass p w) \<noteq> Some (Exception m)"
  by (auto simp: try_except_pass_def split: prod.splits raised.splits option.splits)

lemma fst_call_print [simp]: "fst (call_print console text e s) = fst (console text e (world s))"
  by (simp add: call_print_def split: prod.splits)

lemma fst_call_gui [simp]: "fst (call_gui cb text s) = fst (cb text (world s))"
  by (simp add: call_gui_def split: prod.splits)

lemma gui_callback_call_print [simp]:
  "gui_callback (snd (call_print console text e s)) = gui_callback s"
  by (simp add: call_print_def split: prod.splits)

lemma gui_callback_try_except_pass:
  "gui_callback (snd (p s)) = gui_callback s \<Longrightarrow>
   gui_callback (snd (try_except_pass p s)) = gui_callback s"
  by (auto simp: try_except_pass_def split: prod.splits raised.splits option.splits)

lemma str_int_examples:
  "str_int 3 = ''3''" "str_int 120 = ''120''" "str_int (- 45) = ''-45''" "str_int 0 = ''0''"
  by code_simp+

text \<open>
  What \<^verbatim>\<open>except Exception\<close> does not catch leaves \<open>_emit\<close>: a callback interrupted
  by \<open>KeyboardInterrupt\<close> ends the call with that interrupt.
\<close>

lemma emit_lets_interrupt_through:
  "fst (emit (\<lambda>t e. skip) ''hello'' newline
         \<lparr>gui_callback = Some (\<lambda>t w. (Some (BaseException ''KeyboardInterrupt''), w)),
          calls = [], world = ()\<rparr>) = Some (BaseException ''KeyboardInterrupt'')"
  by (simp add: emit_def then_do_def try_except_pass_def call_print_def call_gui_def skip_def)

text \<open>
  C2. \<open>_emit\<close> never lets an instance of \<open>Exception\<close> out, whatever the console print
  and the registered callback do; and it returns normally, for every message and
  every registered callback, whenever what the console print and the callback
  raise on this call, if anything, is an instance of \<open>Exception\<close> (the logging-sink
  failures its two handlers are written for).
\<close>

theorem emit_never_propagates:
  "(\<forall>m. fst (emit console text end' s) \<noteq> Some (Exception m)) \<and>
   ((\<forall>m. fst (console text end' (world s)) \<noteq> Some (BaseException m)) \<longrightarrow>
    (\<forall>cb m. gui_callback s = Some cb \<longrightarrow>
       fst (cb text (snd (console text end' (world s)))) \<noteq> Some (BaseException m)) \<longrightarrow>
    fst (emit console text end' s) = None)"
proof (intro conjI allI impI)
  fix m
  show "fst (emit console text end' s) \<noteq> Some (Exception m)"
  proof (cases "try_except_pass (call_print console text end') s")
    case (Pair r s1)
    have r: "r \<noteq> Some (Exception m)"
      using try_except_pass_not_Exception [of "call_print console text end'" s m] Pair by simp
    show ?thesis
    proof (cases r)
      case None
      then show ?thesis
        using Pair try_except_pass_not_Exception [of _ s1 m]
        by (simp add: emit_def then_do_def skip_def split: option.splits)
    next
      case (Some e)
      then show ?thesis
        using Pair r by (simp add: emit_def then_do_def)
    qed
  qed
next
  assume con: "\<forall>m. fst (console text end' (world s)) \<noteq> Some (BaseException m)"
    and cbs: "\<forall>cb m. gui_callback s = Some cb \<longrightarrow>
       fst (cb text (snd (console text end' (world s)))) \<noteq> Some (BaseException m)"
  obtain r s1 where p: "try_except_pass (call_print console text end') s = (r, s1)"
    by (cases "try_except_pass (call_print console text end') s")
  have "fst (try_except_pass (call_print console text end') s) = None"
    using con by (intro try_except_pass_None) simp
  then have r: "r = None"
    using p by simp
  have g: "gui_callback s1 = gui_callback s"
    using gui_callback_try_except_pass [of "call_print console text end'" s] p by simp
  have w: "world s1 = snd (console text end' (world s))"
    using p
    by (auto simp: try_except_pass_def call_print_def split: prod.splits option.splits raised.splits)
  show "fst (emit console text end' s) = None"
  proof (cases "gui_callback s")
    case None
    then show ?thesis
      using p r g by (simp add: emit_def then_do_def skip_def)
  next
    case (Some cb)
    have "fst (try_except_pass (call_gui cb text) s1) = None"
      using cbs Some w by (intro try_except_pass_None) simp
    then show ?thesis
      using p r g Some by (simp add: emit_def then_do_def)
  qed
qed

theorem emit_never_propagates_witness:
  "fst (emit (\<lambda>t e w. (Some (Exception ''stdout is closed''), w)) ''hello'' newline
         \<lparr>gui_callback = Some (\<lambda>t w. (Some (Exception ''widget destroyed''), t # w)),
          calls = [], world = []\<rparr>) = None"
  using emit_never_propagates
    [of "\<lambda>t e w. (Some (Exception ''stdout is closed''), w)" "''hello''" newline
        "\<lparr>gui_callback = Some (\<lambda>t w. (Some (Exception ''widget destroyed''), t # w)),
          calls = [], world = []\<rparr>"]
  by simp

subsection \<open>Forwarding\<close>

lemma forwarded_append:
  "forwarded reg xs \<Longrightarrow> forwarded reg ys \<Longrightarrow> forwarded reg (xs @ ys)"
  apply (induction reg xs rule: forwarded.induct)
     apply auto
  subgoal for m e by (cases ys; simp; cases "hd ys"; cases "tl ys"; auto)
  done

lemma forwarded_unregistered:
  "forwarded False tr \<Longrightarrow> Callback m \<notin> set tr"
  by (induction "False" tr rule: forwarded.induct) auto

lemma then_do_NoneE:
  assumes "then_do p q s = (None, s')"
  obtains s1 where "p s = (None, s1)" and "q s1 = (None, s')"
  using assms by (auto simp: then_do_def split: prod.splits option.splits)

lemma emit_result:
  assumes "emit console text e s = (None, s')"
  shows "s' = s\<lparr>calls := calls s @ (case gui_callback s of None \<Rightarrow> [Print text e]
                                     | Some cb \<Rightarrow> [Print text e, Callback text]),
               world := (case gui_callback s of
                           None \<Rightarrow> snd (console text e (world s))
                         | Some cb \<Rightarrow> snd (cb text (snd (console text e (world s)))))\<rparr>"
  using assms
  by (auto simp: emit_def then_do_def skip_def try_except_pass_def call_print_def call_gui_def
           split: prod.splits option.splits raised.splits)

lemma emit_unregistered:
  assumes "gui_callback s = None"
  shows "snd (emit console text e s) =
           s\<lparr>calls := calls s @ [Print text e], world := snd (console text e (world s))\<rparr>"
    and "fst (emit console text e s) =
           (case fst (console text e (world s)) of
              Some (BaseException m) \<Rightarrow> Some (BaseException m) | _ \<Rightarrow> None)"
  using assms
  by (auto simp: emit_def then_do_def skip_def try_except_pass_def call_print_def
           split: prod.splits option.splits raised.splits)

lemma delivers_emit: "delivers (emit console text e)"
  unfolding delivers_def
proof (intro allI impI)
  fix s s' :: "'a process"
  assume "emit console text e s = (None, s')"
  from emit_result [OF this] show "gui_callback s' = gui_callback s \<and>
        (\<exists>tr. calls s' = calls s @ tr \<and> forwarded (gui_callback s \<noteq> None) tr)"
    by (cases "gui_callback s") auto
qed

lemma grows_emit: "grows (emit console text e)"
  unfolding grows_def
proof (intro allI impI)
  fix s s' :: "'a process"
  assume "emit console text e s = (None, s')"
  from emit_result [OF this] show "length (calls s) < length (calls s')"
    by (cases "gui_callback s") auto
qed

lemma delivers_then_do:
  assumes "delivers p" and "delivers q"
  shows "delivers (then_do p q)"
  unfolding delivers_def
proof (intro allI impI)
  fix s s'
  assume "then_do p q s = (None, s')"
  then obtain s1 where p: "p s = (None, s1)" and q: "q s1 = (None, s')"
    by (rule then_do_NoneE)
  from assms(1) p obtain tr1 where 1: "gui_callback s1 = gui_callback s"
      "calls s1 = calls s @ tr1" "forwarded (gui_callback s \<noteq> None) tr1"
    unfolding delivers_def by blast
  from assms(2) q obtain tr2 where 2: "gui_callback s' = gui_callback s1"
      "calls s' = calls s1 @ tr2" "forwarded (gui_callback s1 \<noteq> None) tr2"
    unfolding delivers_def by blast
  have "forwarded (gui_callback s \<noteq> None) (tr1 @ tr2)"
    using 1 2 by (simp add: forwarded_append)
  then show "gui_callback s' = gui_callback s \<and>
        (\<exists>tr. calls s' = calls s @ tr \<and> forwarded (gui_callback s \<noteq> None) tr)"
    using 1 2 by auto
qed

lemma calls_mono:
  "delivers p \<Longrightarrow> p s = (None, s') \<Longrightarrow> length (calls s) \<le> length (calls s')"
  unfolding delivers_def by fastforce

lemma grows_then_do_left:
  assumes "grows p" and "delivers q"
  shows "grows (then_do p q)"
  unfolding grows_def
proof (intro allI impI)
  fix s s'
  assume "then_do p q s = (None, s')"
  then obtain s1 where p: "p s = (None, s1)" and q: "q s1 = (None, s')"
    by (rule then_do_NoneE)
  from assms(1) p have "length (calls s) < length (calls s1)"
    unfolding grows_def by blast
  moreover have "length (calls s1) \<le> length (calls s')"
    using assms(2) q by (rule calls_mono)
  ultimately show "length (calls s) < length (calls s')" by simp
qed

lemma grows_then_do_right:
  assumes "delivers p" and "grows q"
  shows "grows (then_do p q)"
  unfolding grows_def
proof (intro allI impI)
  fix s s'
  assume "then_do p q s = (None, s')"
  then obtain s1 where p: "p s = (None, s1)" and q: "q s1 = (None, s')"
    by (rule then_do_NoneE)
  from assms(2) q have "length (calls s1) < length (calls s')"
    unfolding grows_def by blast
  moreover have "length (calls s) \<le> length (calls s1)"
    using assms(1) p by (rule calls_mono)
  ultimately show "length (calls s) < length (calls s')" by simp
qed

lemma delivers_skip: "delivers skip"
  by (simp add: delivers_def skip_def)

lemma delivers_call_sleep: "delivers (call_sleep sleep n)"
  by (auto simp: delivers_def call_sleep_def split: prod.splits)

lemma delivers_countdown_loop: "delivers (countdown_loop console sleep n)"
  by (induction n) (simp_all add: delivers_skip delivers_then_do delivers_emit delivers_call_sleep)

lemma print_function_delivers:
  "print_function console sleep p \<Longrightarrow> delivers p \<and> grows p"
proof (induction rule: print_function.induct)
  case (10 seconds)
  then show ?case
    by (simp add: print_countdown_def delivers_then_do delivers_countdown_loop delivers_emit
        grows_then_do_right grows_emit)
qed (simp_all add: print_title_def print_info_def print_success_def print_warning_def
      print_error_def print_step_def print_progress_def print_section_def
      delivers_then_do delivers_emit grows_then_do_left grows_emit)

lemma print_function_trace:
  assumes "print_function console sleep p" and "p s = (None, s')"
  shows "gui_callback s' = gui_callback s \<and>
         (\<exists>tr. calls s' = calls s @ tr \<and> tr \<noteq> [] \<and> forwarded (gui_callback s \<noteq> None) tr)"
proof -
  from print_function_delivers [OF assms(1)] have d: "delivers p" and g: "grows p"
    by simp_all
  from d assms(2) obtain tr where tr: "gui_callback s' = gui_callback s"
      "calls s' = calls s @ tr" "forwarded (gui_callback s \<noteq> None) tr"
    unfolding delivers_def by blast
  from g assms(2) have "length (calls s) < length (calls s')"
    unfolding grows_def by blast
  with tr have "tr \<noteq> []" by auto
  with tr show ?thesis by blast
qed

lemma deliveries_append:
  "deliveries reg (ms @ ns) = deliveries reg ms @ deliveries reg ns"
  by (induction reg ms rule: deliveries.induct) simp_all

lemma emits_emit: "emits [(m, e)] (emit console m e)"
  unfolding emits_def
proof (intro allI impI)
  fix s s' :: "'a process"
  assume "emit console m e s = (None, s')"
  from emit_result [OF this] show "gui_callback s' = gui_callback s \<and>
        calls s' = calls s @ deliveries (gui_callback s \<noteq> None) [(m, e)]"
    by (cases "gui_callback s") auto
qed

lemma emits_then_do:
  assumes "emits ms p" and "emits ns q"
  shows "emits (ms @ ns) (then_do p q)"
  unfolding emits_def
proof (intro allI impI)
  fix s s'
  assume "then_do p q s = (None, s')"
  then obtain s1 where p: "p s = (None, s1)" and q: "q s1 = (None, s')"
    by (rule then_do_NoneE)
  from assms(1) p have 1: "gui_callback s1 = gui_callback s"
      "calls s1 = calls s @ deliveries (gui_callback s \<noteq> None) ms"
    unfolding emits_def by blast+
  from assms(2) q have 2: "gui_callback s' = gui_callback s1"
      "calls s' = calls s1 @ deliveries (gui_callback s1 \<noteq> None) ns"
    unfolding emits_def by blast+
  show "gui_callback s' = gui_callback s \<and>
        calls s' = calls s @ deliveries (gui_callback s \<noteq> None) (ms @ ns)"
    using 1 2 by (simp add: deliveries_append)
qed

lemma emits_skip: "emits [] skip"
  by (simp add: emits_def skip_def)

lemma emits_call_sleep: "emits [] (call_sleep sleep n)"
  by (auto simp: emits_def call_sleep_def split: prod.splits)

lemma emits_countdown_loop:
  "emits (map (\<lambda>i. (''  '' @ str_int (int i) @ ''...'', carriage_return)) (rev [1..<Suc n]))
     (countdown_loop console sleep n)"
proof (induction n)
  case 0
  then show ?case by (simp add: emits_skip)
next
  case (Suc n)
  have "emits ([(''  '' @ str_int (int (Suc n)) @ ''...'', carriage_return)] @ ([] @
          map (\<lambda>i. (''  '' @ str_int (int i) @ ''...'', carriage_return)) (rev [1..<Suc n])))
        (countdown_loop console sleep (Suc n))"
    unfolding countdown_loop.simps
    by (intro emits_then_do emits_emit emits_call_sleep Suc.IH)
  then show ?case by simp
qed

lemma emitsD:
  "emits ms p \<Longrightarrow> p s = (None, s') \<Longrightarrow>
   calls s' = calls s @ deliveries (gui_callback s \<noteq> None) ms"
  unfolding emits_def by blast

lemma emit_calls:
  "emit console m e s = (None, s') \<Longrightarrow>
   calls s' = calls s @ deliveries (gui_callback s \<noteq> None) [(m, e)]"
  by (rule emitsD [OF emits_emit])

lemma emits_print_title:
  "emits [(newline @ replicate 60 CHR ''='', newline), (m, newline),
          (replicate 60 CHR ''='', newline)] (print_title console m)"
  using emits_then_do [OF emits_emit emits_then_do [OF emits_emit emits_emit]]
  by (simp add: print_title_def)

lemma emits_print_section:
  "emits [(replicate 60 CHR ''-'', newline), (m, newline)] (print_section console m)"
  using emits_then_do [OF emits_emit emits_emit] by (simp add: print_section_def)

lemma emits_print_countdown:
  "emits (map (\<lambda>i. (''  '' @ str_int (int i) @ ''...'', carriage_return))
            (rev [1..<Suc (nat seconds)]) @ [(countdown_go, newline)])
     (print_countdown console sleep seconds)"
  unfolding print_countdown_def by (intro emits_then_do emits_countdown_loop emits_emit)

text \<open>
  C6. Whenever \<open>_emit\<close> or a print function of the module returns normally, the
  calls it has made on the two sinks are exactly these, in order: for every message
  it emits (the text it builds from its argument), the console print of that
  message and, when a callback is registered, directly after it the call of that
  callback on the identical string; with no callback registered, the console
  prints only. For \<open>_emit\<close> the state it leaves is the one the console print and
  then the callback, applied to that string, leave.
\<close>

theorem print_functions_forward:
  "(emit console msg e s = (None, s') \<longrightarrow>
      s' = s\<lparr>calls := calls s @ deliveries (gui_callback s \<noteq> None) [(msg, e)],
             world := (case gui_callback s of
                         None \<Rightarrow> snd (console msg e (world s))
                       | Some cb \<Rightarrow> snd (cb msg (snd (console msg e (world s)))))\<rparr>) \<and>
   (print_title console msg s = (None, s') \<longrightarrow>
      calls s' = calls s @ deliveries (gui_callback s \<noteq> None)
        [([CHR 0x0A] @ replicate 60 CHR ''='', [CHR 0x0A]), (msg, [CHR 0x0A]),
         (replicate 60 CHR ''='', [CHR 0x0A])]) \<and>
   (print_info console msg s = (None, s') \<longrightarrow>
      calls s' = calls s @ deliveries (gui_callback s \<noteq> None)
        [([CHR 0xE2, CHR 0x84, CHR 0xB9, CHR 0xEF, CHR 0xB8, CHR 0x8F] @ ''  '' @ msg,
          [CHR 0x0A])]) \<and>
   (print_success console msg s = (None, s') \<longrightarrow>
      calls s' = calls s @ deliveries (gui_callback s \<noteq> None)
        [([CHR 0xE2, CHR 0x9C, CHR 0x85] @ '' '' @ msg, [CHR 0x0A])]) \<and>
   (print_warning console msg s = (None, s') \<longrightarrow>
      calls s' = calls s @ deliveries (gui_callback s \<noteq> None)
        [([CHR 0xE2, CHR 0x9A, CHR 0xA0, CHR 0xEF, CHR 0xB8, CHR 0x8F] @ ''  '' @ msg,
          [CHR 0x0A])]) \<and>
   (print_error console msg s = (None, s') \<longrightarrow>
      calls s' = calls s @ deliveries (gui_callback s \<noteq> None)
        [([CHR 0xE2, CHR 0x9D, CHR 0x8C] @ '' '' @ msg, [CHR 0x0A])]) \<and>
   (print_step console msg s = (None, s') \<longrightarrow>
      calls s' = calls s @ deliveries (gui_callback s \<noteq> None)
        [([CHR 0xE2, CHR 0x86, CHR 0x92] @ '' '' @ msg, [CHR 0x0A])]) \<and>
   (print_progress console current total' msg s = (None, s') \<longrightarrow>
      calls s' = calls s @ deliveries (gui_callback s \<noteq> None)
        [([CHR 0xE8, CHR 0xBF, CHR 0x9B, CHR 0xE5, CHR 0xBA, CHR 0xA6] @ '': '' @
          str_int current @ ''/'' @ str_int total' @ (if msg = [] then [] else '' '' @ msg),
          [CHR 0x0A])]) \<and>
   (print_section console msg s = (None, s') \<longrightarrow>
      calls s' = calls s @ deliveries (gui_callback s \<noteq> None)
        [(replicate 60 CHR ''-'', [CHR 0x0A]), (msg, [CHR 0x0A])]) \<and>
   (print_countdown console sleep seconds s = (None, s') \<longrightarrow>
      calls s' = calls s @ deliveries (gui_callback s \<noteq> None)
        (map (\<lambda>i. (''  '' @ str_int (int i) @ ''...'', [CHR 0x0D])) (rev [1..<Suc (nat seconds)]) @
         [(''  '' @ [CHR 0xE5, CHR 0xBC, CHR 0x80, CHR 0xE5, CHR 0xA7, CHR 0x8B, CHR 0xEF,
                    CHR 0xBC, CHR 0x81] @ ''  '', [CHR 0x0A])]))"
proof (intro conjI impI)
  assume "emit console msg e s = (None, s')"
  from emit_result [OF this] show "s' = s\<lparr>calls := calls s @ deliveries (gui_callback s \<noteq> None) [(msg, e)],
             world := (case gui_callback s of
                         None \<Rightarrow> snd (console msg e (world s))
                       | Some cb \<Rightarrow> snd (cb msg (snd (console msg e (world s)))))\<rparr>"
    by (cases "gui_callback s") auto
next
  assume "print_title console msg s = (None, s')"
  from emitsD [OF emits_print_title this] show "calls s' = calls s @ deliveries (gui_callback s \<noteq> None)
        [([CHR 0x0A] @ replicate 60 CHR ''='', [CHR 0x0A]), (msg, [CHR 0x0A]),
         (replicate 60 CHR ''='', [CHR 0x0A])]"
    by (simp add: newline_def)
next
  assume "print_info console msg s = (None, s')"
  then have "emit console (info_prefix @ msg) newline s = (None, s')"
    by (simp add: print_info_def)
  from emit_calls [OF this] show "calls s' = calls s @ deliveries (gui_callback s \<noteq> None)
        [([CHR 0xE2, CHR 0x84, CHR 0xB9, CHR 0xEF, CHR 0xB8, CHR 0x8F] @ ''  '' @ msg,
          [CHR 0x0A])]"
    by (simp add: info_prefix_def newline_def)
next
  assume "print_success console msg s = (None, s')"
  then have "emit console (success_prefix @ msg) newline s = (None, s')"
    by (simp add: print_success_def)
  from emit_calls [OF this] show "calls s' = calls s @ deliveries (gui_callback s \<noteq> None)
        [([CHR 0xE2, CHR 0x9C, CHR 0x85] @ '' '' @ msg, [CHR 0x0A])]"
    by (simp add: success_prefix_def newline_def)
next
  assume "print_warning console msg s = (None, s')"
  then have "emit console (warning_prefix @ msg) newline s = (None, s')"
    by (simp add: print_warning_def)
  from emit_calls [OF this] show "calls s' = calls s @ deliveries (gui_callback s \<noteq> None)
        [([CHR 0xE2, CHR 0x9A, CHR 0xA0, CHR 0xEF, CHR 0xB8, CHR 0x8F] @ ''  '' @ msg,
          [CHR 0x0A])]"
    by (simp add: warning_prefix_def newline_def)
next
  assume "print_error console msg s = (None, s')"
  then have "emit console (error_prefix @ msg) newline s = (None, s')"
    by (simp add: print_error_def)
  from emit_calls [OF this] show "calls s' = calls s @ deliveries (gui_callback s \<noteq> None)
        [([CHR 0xE2, CHR 0x9D, CHR 0x8C] @ '' '' @ msg, [CHR 0x0A])]"
    by (simp add: error_prefix_def newline_def)
next
  assume "print_step console msg s = (None, s')"
  then have "emit console (step_prefix @ msg) newline s = (None, s')"
    by (simp add: print_step_def)
  from emit_calls [OF this] show "calls s' = calls s @ deliveries (gui_callback s \<noteq> None)
        [([CHR 0xE2, CHR 0x86, CHR 0x92] @ '' '' @ msg, [CHR 0x0A])]"
    by (simp add: step_prefix_def newline_def)
next
  assume "print_progress console current total' msg s = (None, s')"
  then have "emit console
               (progress_prefix @ str_int current @ ''/'' @ str_int total' @
                (if msg = [] then [] else '' '' @ msg)) newline s = (None, s')"
    by (simp add: print_progress_def split: if_splits)
  from emit_calls [OF this] show "calls s' = calls s @ deliveries (gui_callback s \<noteq> None)
        [([CHR 0xE8, CHR 0xBF, CHR 0x9B, CHR 0xE5, CHR 0xBA, CHR 0xA6] @ '': '' @
          str_int current @ ''/'' @ str_int total' @ (if msg = [] then [] else '' '' @ msg),
          [CHR 0x0A])]"
    by (simp add: progress_prefix_def newline_def)
next
  assume "print_section console msg s = (None, s')"
  from emitsD [OF emits_print_section this] show "calls s' = calls s @ deliveries (gui_callback s \<noteq> None)
        [(replicate 60 CHR ''-'', [CHR 0x0A]), (msg, [CHR 0x0A])]"
    by (simp add: newline_def)
next
  assume "print_countdown console sleep seconds s = (None, s')"
  from emitsD [OF emits_print_countdown this] show "calls s' = calls s @ deliveries (gui_callback s \<noteq> None)
        (map (\<lambda>i. (''  '' @ str_int (int i) @ ''...'', [CHR 0x0D])) (rev [1..<Suc (nat seconds)]) @
         [(''  '' @ [CHR 0xE5, CHR 0xBC, CHR 0x80, CHR 0xE5, CHR 0xA7, CHR 0x8B, CHR 0xEF,
                    CHR 0xBC, CHR 0x81] @ ''  '', [CHR 0x0A])])"
    by (simp add: newline_def carriage_return_def countdown_go_def)
qed

theorem print_functions_forward_witness:
  "calls (snd (print_section (\<lambda>t e. skip) ''canny''
                 \<lparr>gui_callback = Some (gui_log_proxy tk_after), calls = [],
                  world = startup\<rparr>)) =
     [Print (replicate 60 CHR ''-'') [CHR 0x0A], Callback (replicate 60 CHR ''-''),
      Print ''canny'' [CHR 0x0A], Callback ''canny'']"
proof -
  let ?s = "\<lparr>gui_callback = Some (gui_log_proxy tk_after), calls = [], world = startup\<rparr>"
  let ?p = "print_section (\<lambda>t e. skip) ''canny'' :: app process proc"
  have "fst (?p ?s) = None"
    by (simp add: print_section_def emit_def then_do_def try_except_pass_def call_print_def
        call_gui_def skip_def gui_log_proxy_def try_except_def tk_after_def act_def)
  then have r: "?p ?s = (None, snd (?p ?s))"
    by (cases "?p ?s") simp
  show ?thesis
    using print_functions_forward
      [where console = "\<lambda>t e. skip" and msg = "''canny''" and s = ?s and s' = "snd (?p ?s)"] r
    by simp
qed

text \<open>
  C9. A registration replaces the one before it, so that the global holds the
  callback registered last and nothing of an earlier one. After \<open>None\<close> is
  registered, \<open>_emit\<close> calls the console print and nothing else, leaves the rest of
  the process as the console print left it, and raises only what the console print
  raised outside \<open>Exception\<close>; and whatever a print function emits from there, no
  call goes to any callback and none is registered afterwards.
\<close>

theorem register_replaces:
  "register_gui_logger g (register_gui_logger f s) = register_gui_logger g s \<and>
   gui_callback (register_gui_logger g s) = g \<and>
   snd (emit console text e (register_gui_logger None s)) =
     s\<lparr>gui_callback := None, calls := calls s @ [Print text e],
       world := snd (console text e (world s))\<rparr> \<and>
   fst (emit console text e (register_gui_logger None s)) =
     (case fst (console text e (world s)) of
        Some (BaseException m) \<Rightarrow> Some (BaseException m) | _ \<Rightarrow> None) \<and>
   (print_function console sleep p \<longrightarrow> p (register_gui_logger None s) = (None, s') \<longrightarrow>
      gui_callback s' = None \<and>
      (\<exists>tr. calls s' = calls s @ tr \<and> (\<forall>m. Callback m \<notin> set tr)))"
proof -
  have n: "gui_callback (register_gui_logger None s) = None"
    and c: "calls (register_gui_logger None s) = calls s"
    by (simp_all add: register_gui_logger_def)
  have "gui_callback s' = None \<and> (\<exists>tr. calls s' = calls s @ tr \<and> (\<forall>m. Callback m \<notin> set tr))"
    if "print_function console sleep p" and "p (register_gui_logger None s) = (None, s')"
    using print_function_trace [OF that] n c forwarded_unregistered by fastforce
  then show ?thesis
    using emit_unregistered [OF n, of console "text" e]
    by (simp add: register_gui_logger_def)
qed

theorem register_replaces_witness:
  "gui_callback (snd (print_info (\<lambda>t e. skip) ''ready''
      (register_gui_logger None
         \<lparr>gui_callback = Some (gui_log_proxy tk_after), calls = [], world = startup\<rparr>))) = None \<and>
   calls (snd (print_info (\<lambda>t e. skip) ''ready''
      (register_gui_logger None
         \<lparr>gui_callback = Some (gui_log_proxy tk_after), calls = [], world = startup\<rparr>))) =
     [Print (info_prefix @ ''ready'') newline]"
proof -
  let ?s = "\<lparr>gui_callback = Some (gui_log_proxy tk_after), calls = [], world = startup\<rparr>"
  let ?p = "print_info (\<lambda>t e. skip) ''ready'' :: app process proc"
  let ?r = "?p (register_gui_logger None ?s)"
  have c: "calls (snd ?r) = [Print (info_prefix @ ''ready'') newline]" and "fst ?r = None"
    by (simp_all add: print_info_def emit_def then_do_def try_except_pass_def call_print_def
        skip_def register_gui_logger_def)
  then have r: "?r = (None, snd ?r)"
    by (cases ?r) simp
  have f: "print_function (\<lambda>t e. skip) (\<lambda>n. skip) ?p"
    by (rule print_function.intros)
  show ?thesis
    using register_replaces [of None None ?s "\<lambda>t e. skip" "''ready''" newline "\<lambda>n. skip" ?p "snd ?r"]
      f r c by simp
qed

section \<open>Properties of the configuration\<close>

text \<open>
  C1. The configuration of \<open>config/config.py\<close> has exactly the sections
  \<open>draw_config\<close>, \<open>image_config\<close> and \<open>screen_config\<close>; their option keys are exactly
  \<open>DELAY\<close>, \<open>ENABLE_JITTER\<close>, \<open>JITTER_AMOUNT\<close>, \<open>JITTER_FREQUENCY\<close>, \<open>SPEED_FACTOR\<close>;
  \<open>BRUSH_STEP\<close>, \<open>CANNY_THRESH1\<close>, \<open>CANNY_THRESH2\<close>, \<open>EPSILON_FACTOR\<close>, \<open>H_IMG\<close>,
  \<open>W_IMG\<close>, \<open>THRESHOLD_VALUE\<close>; and \<open>H\<close>, \<open>W\<close>, \<open>X_A\<close>, \<open>Y_A\<close>. No key occurs twice and
  every value is a scalar.
\<close>

theorem CONFIG_sections_and_keys:
  "sections CONFIG = {''draw_config'', ''image_config'', ''screen_config''} \<and>
   option_keys CONFIG ''draw_config'' =
     {''DELAY'', ''ENABLE_JITTER'', ''JITTER_AMOUNT'', ''JITTER_FREQUENCY'', ''SPEED_FACTOR''} \<and>
   option_keys CONFIG ''image_config'' =
     {''BRUSH_STEP'', ''CANNY_THRESH1'', ''CANNY_THRESH2'', ''EPSILON_FACTOR'', ''H_IMG'',
      ''W_IMG'', ''THRESHOLD_VALUE''} \<and>
   option_keys CONFIG ''screen_config'' = {''H'', ''W'', ''X_A'', ''Y_A''} \<and>
   wf_config CONFIG \<and> all_scalar CONFIG"
proof (intro conjI)
  show "sections CONFIG = {''draw_config'', ''image_config'', ''screen_config''}"
    by (simp add: sections_def CONFIG_def)
  show "option_keys CONFIG ''draw_config'' =
     {''DELAY'', ''ENABLE_JITTER'', ''JITTER_AMOUNT'', ''JITTER_FREQUENCY'', ''SPEED_FACTOR''}"
    by (simp add: option_keys_def CONFIG_def)
  show "option_keys CONFIG ''image_config'' =
     {''BRUSH_STEP'', ''CANNY_THRESH1'', ''CANNY_THRESH2'', ''EPSILON_FACTOR'', ''H_IMG'',
      ''W_IMG'', ''THRESHOLD_VALUE''}"
    by (auto simp: option_keys_def CONFIG_def)
  show "option_keys CONFIG ''screen_config'' = {''H'', ''W'', ''X_A'', ''Y_A''}"
    by (simp add: option_keys_def CONFIG_def)
  show "wf_config CONFIG"
    by (simp add: wf_config_def CONFIG_def)
  show "all_scalar CONFIG"
    by (simp add: all_scalar_def CONFIG_def)
qed

lemma map_of_map_keyed:
  "map_of (map (\<lambda>(k, v). (k, f k v)) xs) k = map_option (f k) (map_of xs k)"
  by (induction xs) auto

lemma lookup_reset_config_file:
  "lookup (reset_config_file defaults file) s k =
     map_option (\<lambda>d. if preserved_key s k
                      then (case lookup file s k of Some v \<Rightarrow> v | None \<Rightarrow> d) else d)
       (lookup defaults s k)"
proof -
  have "map_of (reset_config_file defaults file) s =
          map_option (\<lambda>ps. map (\<lambda>(k, d). (k, if preserved_key s k
                           then (case lookup file s k of Some v \<Rightarrow> v | None \<Rightarrow> d)
                           else d)) ps) (map_of defaults s)"
    unfolding reset_config_file_def by (rule map_of_map_keyed)
  then show ?thesis
    by (cases "map_of defaults s") (simp_all add: lookup_def map_of_map_keyed)
qed


section \<open>Properties of the interface\<close>

subsection \<open>Saving the editor\<close>










subsection \<open>One run at a time\<close>

lemma inv_step:
  assumes "step a a'"
    and "length (workers a) \<le> 1 \<and> (start_btn a = DISABLED \<longleftrightarrow> workers a \<noteq> [])"
  shows "length (workers a') \<le> 1 \<and> (start_btn a' = DISABLED \<longleftrightarrow> workers a' \<noteq> [])"
  using assms
proof (induction rule: step.induct)
  case (click_start a)
  then have "workers a = []"
    by auto
  then show ?case
    using click_start by (simp add: start_drawing_def Let_def append_log_def)
next
  case (worker_build a ws algo ws')
  then show ?case by auto
next
  case (worker_run a ws d ws' r)
  then show ?case by auto
next
  case (worker_log a ws r ws')
  then show ?case
    by (auto simp: run_draw_log_def append_log_def split: option.splits raised.splits)
next
  case (worker_finally a ws ws')
  then show ?case by (auto simp: run_draw_finally_def)
next
  case (other_handler a' a)
  then show ?case by simp
qed

text \<open>The other handlers modelled here are steps of the system.\<close>

lemma keeps_then_do: "keeps p \<Longrightarrow> keeps q \<Longrightarrow> keeps (then_do p q)"
  unfolding keeps_def then_do_def
  by (auto split: prod.splits option.splits) (metis snd_conv)+

lemma keeps_try_except: "keeps p \<Longrightarrow> (\<And>m. keeps (h m)) \<Longrightarrow> keeps (try_except p h)"
  unfolding keeps_def try_except_def
  by (auto split: prod.splits option.splits raised.splits) (metis snd_conv)+

lemma keeps_try_except_pass: "keeps p \<Longrightarrow> keeps (try_except_pass p)"
  unfolding keeps_def try_except_pass_def
  by (auto split: prod.splits option.splits raised.splits) (metis snd_conv)+

lemma keeps_basic:
  "keeps skip" "keeps (act (append_log m))" "keeps (tk_after m)"
  "keeps (call_save save)" "keeps (call_reset reset)" "keeps (call_load load)"
  "keeps (store_entry eval s k raw)" "keeps (outcome r)"
  by (auto simp: keeps_def skip_def act_def append_log_def tk_after_def call_save_def
      call_reset_def call_load_def store_entry_def outcome_def Let_def
      split: sum.splits option.splits raised.splits)

lemma keeps_open_file: "keeps (open_file path image_open draw_image)"
proof -
  have "keeps (act (\<lambda>a. append_log m (a\<lparr>image_path := p\<rparr>)))"
    and "keeps (act (\<lambda>a. a\<lparr>dialogs := d a\<rparr>))" for m p d
    by (simp_all add: keeps_def act_def append_log_def)
  then show ?thesis
    by (simp add: open_file_def keeps_basic keeps_then_do keeps_try_except)
qed

lemma keeps_store_entries: "keeps (store_entries eval es)"
  by (induction es rule: store_entries.induct[of _ eval])
     (simp_all add: keeps_basic keeps_then_do)

lemma keeps_handlers:
  "keeps (save_and_close eval save es)" "keeps (reset_config_action answer reset load)"
  "keeps (gui_log_proxy tk_after msg)"
  by (simp_all add: save_and_close_def reset_config_action_def do_reset_def gui_log_proxy_def
      keeps_basic keeps_then_do keeps_try_except keeps_try_except_pass keeps_store_entries)

lemma keeps_step: "keeps p \<Longrightarrow> step a (snd (p a))"
  by (rule step.other_handler) (simp_all add: keeps_def)

text \<open>
  C4. In every state the application reaches from start-up, at most one thread on
  \<open>run_draw\<close> is alive, and the start button is disabled exactly while one is: it is
  disabled from the call of \<open>start_drawing\<close> that starts the thread until the
  \<open>finally\<close> block of that thread, whether the drawer returned or raised, and enabled
  otherwise. So no second run starts while one is active.
\<close>

theorem one_run_at_a_time:
  assumes "initial a0" and "step\<^sup>*\<^sup>* a0 a"
  shows "length (workers a) \<le> 1 \<and> (start_btn a = DISABLED \<longleftrightarrow> workers a \<noteq> [])"
  using assms(2,1)
proof (induction rule: rtranclp_induct)
  case base
  then show ?case by (simp add: initial_def)
next
  case (step b c)
  then show ?case using inv_step by blast
qed

theorem one_run_at_a_time_witness:
  "initial startup \<and>
   length (workers (start_drawing (snd (open_file ''pic/tea.png'' (\<lambda>p. None) (\<lambda>p. None) startup)))) \<le> 1 \<and>
   start_btn (start_drawing (snd (open_file ''pic/tea.png'' (\<lambda>p. None) (\<lambda>p. None) startup))) = DISABLED \<and>
   workers (start_drawing (snd (open_file ''pic/tea.png'' (\<lambda>p. None) (\<lambda>p. None) startup))) =
     [Started edge_algorithm]"
proof -
  let ?a1 = "snd (open_file ''pic/tea.png'' (\<lambda>p. None) (\<lambda>p. None) startup)"
  have i: "initial startup"
    by (simp add: initial_def startup_def)
  have 1: "step startup ?a1"
    by (rule keeps_step) (rule keeps_open_file)
  have "start_btn ?a1 = NORMAL"
    by (simp add: open_file_def try_except_def then_do_def outcome_def act_def append_log_def
        startup_def)
  then have 2: "step ?a1 (start_drawing ?a1)"
    by (rule step.click_start)
  have w: "workers (start_drawing ?a1) = [Started edge_algorithm]"
    by (simp add: start_drawing_def no_image_def open_file_def try_except_def then_do_def
        outcome_def act_def append_log_def startup_def Let_def)
  from 1 2 have "step\<^sup>*\<^sup>* startup (start_drawing ?a1)"
    by simp
  from one_run_at_a_time [OF i this] show ?thesis
    using i w by simp
qed

subsection \<open>Starting without an image\<close>

text \<open>
  C10. With no image path set (\<open>None\<close>, or the empty string), \<open>start_drawing\<close> shows its warning box and changes
  nothing else: the configuration, the log, the state of the start button and the
  threads are as before, so no run and no thread is started.
\<close>

theorem start_drawing_without_image:
  assumes "no_image a"
  shows "start_drawing a =
           a\<lparr>dialogs := dialogs a @ [ShowWarning no_image_title no_image_message]\<rparr> \<and>
         workers (start_drawing a) = workers a \<and>
         start_btn (start_drawing a) = start_btn a \<and>
         config_data (start_drawing a) = config_data a"
  using assms by (simp add: start_drawing_def)

theorem start_drawing_without_image_witness:
  "start_drawing startup =
     startup\<lparr>dialogs := [ShowWarning no_image_title no_image_message]\<rparr> \<and>
   workers (start_drawing startup) = [] \<and>
   start_btn (start_drawing startup) = NORMAL \<and>
   config_data (start_drawing startup) = CONFIG"
proof -
  have "no_image startup"
    by (simp add: no_image_def startup_def)
  from start_drawing_without_image [OF this] show ?thesis
    by (simp add: startup_def load_config_def)
qed

subsection \<open>Resetting the configuration\<close>

text \<open>
  C7. When the reset is confirmed and has run, with \<open>reset_config_file\<close> and
  \<open>load_config\<close> as modelled, \<open>config_data\<close> is the content of the configuration
  file, and in it every recognised option (one the defaults give) stands as
  follows: \<open>H_IMG\<close>, \<open>W_IMG\<close> and \<open>THRESHOLD_VALUE\<close> of \<open>image_config\<close> and every
  key of \<open>screen_config\<close> have the value the file had for them, every other option
  has its default.
\<close>

theorem reset_keeps_calibration:
  assumes "reset_config_action True (\<lambda>f. Inr (reset_config_file defaults f))
             (\<lambda>f. Inr (load_config f)) a = (r, a')"
    and "lookup defaults s k = Some d"
  shows "r = None \<and> config_data a' = config_file a' \<and>
         lookup (config_file a') s k =
           (if preserved_key s k \<and> lookup (config_file a) s k \<noteq> None
            then lookup (config_file a) s k else Some d)"
proof -
  have "a' = append_log reset_done_message
               (a\<lparr>config_file := reset_config_file defaults (config_file a),
                  config_data := reset_config_file defaults (config_file a)\<rparr>)" and "r = None"
    using assms(1)
    by (auto simp: reset_config_action_def do_reset_def try_except_def then_do_def call_reset_def
        call_load_def load_config_def act_def)
  then show ?thesis
    using assms(2) by (auto simp: append_log_def lookup_reset_config_file)
qed

theorem reset_keeps_calibration_witness:
  "lookup (config_file (snd (reset_config_action True (\<lambda>f. Inr (reset_config_file CONFIG f))
       (\<lambda>f. Inr (load_config f))
       (startup\<lparr>config_file :=
          [(''draw_config'', [(''DELAY'', PInt 9)]),
           (''image_config'', [(''H_IMG'', PInt 640)])]\<rparr>))))
     ''image_config'' ''H_IMG'' = Some (PInt 640) \<and>
   lookup (config_file (snd (reset_config_action True (\<lambda>f. Inr (reset_config_file CONFIG f))
       (\<lambda>f. Inr (load_config f))
       (startup\<lparr>config_file :=
          [(''draw_config'', [(''DELAY'', PInt 9)]),
           (''image_config'', [(''H_IMG'', PInt 640)])]\<rparr>))))
     ''draw_config'' ''DELAY'' = Some (PInt 5)"
proof -
  let ?a = "startup\<lparr>config_file :=
          [(''draw_config'', [(''DELAY'', PInt 9)]),
           (''image_config'', [(''H_IMG'', PInt 640)])]\<rparr>"
  let ?r = "reset_config_action True (\<lambda>f. Inr (reset_config_file CONFIG f))
       (\<lambda>f. Inr (load_config f)) ?a"
  have r: "?r = (fst ?r, snd ?r)"
    by simp
  have h: "lookup CONFIG ''image_config'' ''H_IMG'' = Some (PInt 1280)"
    and d: "lookup CONFIG ''draw_config'' ''DELAY'' = Some (PInt 5)"
    by (simp_all add: lookup_def CONFIG_def)
  show ?thesis
    using reset_keeps_calibration [OF r h] reset_keeps_calibration [OF r d]
    by (simp add: preserved_key_def lookup_def)
qed

section \<open>Properties of the coordinate mapper\<close>

text \<open>
  C8. For a screen rectangle of non-zero width and height and a working
  resolution of non-zero width and height, the mapper takes the image point
  \<open>(0, 0)\<close> to \<open>(X_A, Y_A)\<close> and the image point \<open>(W_IMG, H_IMG)\<close> to
  \<open>(X_A + W, Y_A + H)\<close>.
\<close>

theorem mapper_round_trip:
  assumes "W c \<noteq> 0" and "H c \<noteq> 0" and "W_IMG c \<noteq> 0" and "H_IMG c \<noteq> 0"
  shows "map_point c (0, 0) = Inr (X_A c, Y_A c) \<and>
         map_point c (W_IMG c, H_IMG c) = Inr (X_A c + W c, Y_A c + H c)"
  using assms by (simp add: map_point_def)

theorem mapper_round_trip_witness:
  "map_point \<lparr>X_A = 1890, Y_A = 365, W = 655, H = 910, W_IMG = 960, H_IMG = 1280\<rparr> (0, 0) =
     Inr (1890, 365) \<and>
   map_point \<lparr>X_A = 1890, Y_A = 365, W = 655, H = 910, W_IMG = 960, H_IMG = 1280\<rparr> (960, 1280) =
     Inr (2545, 1275)"
  using mapper_round_trip
    [of "\<lparr>X_A = 1890, Y_A = 365, W = 655, H = 910, W_IMG = 960, H_IMG = 1280\<rparr>"]
  by simp

end

